theory Spec2Isabelle
  imports Complex_Main "HOL-Library.Multiset"
begin

section \<open>The Spelling component: data model\<close>

text \<open>
  The component keeps its state in independent \<open>useState\<close> cells. They are grouped here
  as the source groups them under its comments: the playback cells (voices, selected voice,
  slow toggle, playing identifier) together with the utterance queue of
  \<open>window.speechSynthesis\<close>, the revealed set, and the cipher-game cells. Every handler
  is a function from the state it reads to the state it leaves; a handler runs against the
  state of the latest render, one user event at a time.
\<close>

subsection \<open>JavaScript values\<close>

text \<open>
  \<open>undefined\<close> is \<open>None\<close>: reading an array out of range or a missing key gives it.
  A string is truthy when it is not empty; \<open>null\<close> and \<open>undefined\<close> are falsy.
\<close>

definition truthy :: "string option \<Rightarrow> bool" where
  "truthy v = (case v of None \<Rightarrow> False | Some s \<Rightarrow> s \<noteq> [])"

text \<open>\<open>a || b\<close> on object-or-undefined operands (an object is always truthy).\<close>

definition or_else :: "'a option \<Rightarrow> 'a option \<Rightarrow> 'a option" where
  "or_else a b = (case a of Some x \<Rightarrow> Some x | None \<Rightarrow> b)"

text \<open>\<open>xs[i]\<close>: \<open>undefined\<close> out of range.\<close>

definition at_index :: "'a list \<Rightarrow> nat \<Rightarrow> 'a option" where
  "at_index xs i = (if i < length xs then Some (xs ! i) else None)"

text \<open>
  A template literal \<open>${n}\<close> of a non-negative integer below \<open>10^21\<close>: its decimal digits.
\<close>

definition digit_char :: "nat \<Rightarrow> char" where
  "digit_char d = ''0123456789'' ! d"

function show_nat :: "nat \<Rightarrow> string" where
  "show_nat n =
     (if n < 10 then [digit_char n] else show_nat (n div 10) @ [digit_char (n mod 10)])"
  by pat_completeness auto
termination
  by (relation "measure id") auto

declare show_nat.simps [simp del]

text \<open>\<open>s.startsWith(pat)\<close> and \<open>s.includes(pat)\<close>, case-sensitive.\<close>

fun starts_with :: "string \<Rightarrow> string \<Rightarrow> bool" where
  "starts_with s [] = True"
| "starts_with [] (p # ps) = False"
| "starts_with (c # cs) (p # ps) = (c = p \<and> starts_with cs ps)"

fun str_includes :: "string \<Rightarrow> string \<Rightarrow> bool" where
  "str_includes [] pat = (pat = [])"
| "str_includes (c # cs) pat = (starts_with (c # cs) pat \<or> str_includes cs pat)"

subsection \<open>Playback state and the speech engine\<close>

record voice =
  voice_name :: string
  voice_lang :: string
  voiceURI :: string

text \<open>
  The three callbacks \<open>speakWord\<close> attaches are all of the form
  \<open>() => setPlayingId(v)\<close>; a handler is the value it stores.
\<close>

datatype handler = SetPlayingId "string option"

record utterance =
  utt_text :: string
  utt_voice :: "voice option"
  utt_rate :: real
  onstart :: "handler option"
  onend :: "handler option"
  onerror :: "handler option"

record playback =
  voices :: "voice list"
  selectedVoiceURI :: string
  isSlow :: bool
  playingId :: "string option"
  speechQueue :: "utterance list"

text \<open>
  \<open>new SpeechSynthesisUtterance(t)\<close>: the engine's default voice (\<open>null\<close>), rate 1, no
  event handlers.
\<close>

definition new_utterance :: "string \<Rightarrow> utterance" where
  "new_utterance t =
     \<lparr>utt_text = t, utt_voice = None, utt_rate = 1,
      onstart = None, onend = None, onerror = None\<rparr>"

text \<open>The character class of \<open>/[/\\{}[\]-]/g\<close>: slash, backslash, braces, brackets, hyphen.\<close>

definition markupChars :: "char list" where
  "markupChars =
     [CHR ''/'', CHR 0x5C, CHR ''{'', CHR ''}'', CHR ''['', CHR '']'', CHR ''-'']"

text \<open>
  \<open>text.replace(/[/\\{}[\]-]/g, '')\<close>: a scan that drops every match. The seven
  characters are ASCII, so the scan is the same over UTF-16 units and over bytes.
\<close>

fun cleanText :: "string \<Rightarrow> string" where
  "cleanText [] = []"
| "cleanText (c # cs) = (if c \<in> set markupChars then cleanText cs else c # cleanText cs)"

text \<open>
  \<open>speakWord(text, id?)\<close>. \<open>cancel()\<close> empties the engine's queue and \<open>speak(u)\<close>
  appends to it. The function sets no state cell itself: \<open>playingId\<close> changes only when
  the engine later fires a handler.
\<close>

definition speakWord :: "string \<Rightarrow> string option \<Rightarrow> playback \<Rightarrow> playback" where
  "speakWord txt ident p =
     (let cancelled = p\<lparr>speechQueue := []\<rparr>;
          u0 = new_utterance (cleanText txt);
          u1 = (if selectedVoiceURI p \<noteq> [] then
                  (case find (\<lambda>v. voiceURI v = selectedVoiceURI p) (voices p) of
                     Some v \<Rightarrow> u0\<lparr>utt_voice := Some v\<rparr>
                   | None \<Rightarrow> u0)
                else u0);
          u2 = u1\<lparr>utt_rate := (if isSlow p then 0.5 else 0.9)\<rparr>;
          u3 = (if truthy ident then
                  u2\<lparr>onstart := Some (SetPlayingId ident),
                     onend := Some (SetPlayingId None),
                     onerror := Some (SetPlayingId None)\<rparr>
                else u2)
      in cancelled\<lparr>speechQueue := speechQueue cancelled @ [u3]\<rparr>)"

text \<open>The engine fires a lifecycle event on an utterance: its handler runs, if one is set.\<close>

datatype lifecycle = Start | End | Error

definition handler_of :: "lifecycle \<Rightarrow> utterance \<Rightarrow> handler option" where
  "handler_of ev u = (case ev of Start \<Rightarrow> onstart u | End \<Rightarrow> onend u | Error \<Rightarrow> onerror u)"

definition dispatch :: "lifecycle \<Rightarrow> utterance \<Rightarrow> playback \<Rightarrow> playback" where
  "dispatch ev u p =
     (case handler_of ev u of
        None \<Rightarrow> p
      | Some (SetPlayingId v) \<Rightarrow> p\<lparr>playingId := v\<rparr>)"

text \<open>
  \<open>loadVoices\<close>. The comparator \<open>(a, b) => (a.lang === 'en-US' ? -1 : 1)\<close> is not a
  consistent one, so the order \<open>sort\<close> leaves is the engine's choice; \<open>sortImpl\<close> is
  what \<open>vs.sort(...)\<close> does to the list \<open>getVoices()\<close> returned.
\<close>

definition best_voice :: "voice list \<Rightarrow> voice option" where
  "best_voice vs =
     or_else (find (\<lambda>v. str_includes (voice_name v) ''Google US English'') vs)
    (or_else (find (\<lambda>v. str_includes (voice_name v) ''Natural'') vs)
    (or_else (find (\<lambda>v. voice_lang v = ''en-US'') vs)
             (at_index vs 0)))"

definition loadVoices :: "(voice list \<Rightarrow> voice list) \<Rightarrow> voice list \<Rightarrow> playback \<Rightarrow> playback" where
  "loadVoices sortImpl getVoices p =
     (let vs = sortImpl getVoices;
          p1 = p\<lparr>voices := vs\<rparr>
      in if selectedVoiceURI p = [] \<and> length vs > 0 then
           (case best_voice vs of
              Some best \<Rightarrow> p1\<lparr>selectedVoiceURI := voiceURI best\<rparr>
            | None \<Rightarrow> p1)
         else p1)"

subsection \<open>Reveal tracker\<close>

text \<open>
  \<open>revealedIds\<close> is a \<open>Set<string>\<close> that the component only ever asks for membership
  (\<open>has\<close>), so it is a set of strings. \<open>toggleReveal\<close> copies it, deletes or adds the
  identifier, and stores the copy; it calls no other setter.
\<close>

definition toggleReveal :: "string \<Rightarrow> string set \<Rightarrow> string set" where
  "toggleReveal ident revealedIds =
     (if ident \<in> revealedIds then revealedIds - {ident} else insert ident revealedIds)"

subsection \<open>Cipher game state\<close>

text \<open>
  Modelled from the spec: \<open>TileData\<close> is declared in the \<open>utils\<close> module, which is not
  among the sources; the spec gives a tile as \<open>{text, kind}\<close>. The component reads only
  \<open>text\<close>.
\<close>

record TileData =
  tile_text :: string
  tile_kind :: string

text \<open>
  A bank entry \<open>{id, tile}\<close>. The tile is \<open>cipherTiles[index]\<close>, which is
  \<open>undefined\<close> when the index is out of range.
\<close>

record bank_item =
  bank_id :: string
  bank_tile :: "TileData option"

datatype check_result = Correct | Incorrect

text \<open>
  \<open>hiddenIndices\<close> is a \<open>Set<number>\<close> (membership, size and a \<open>forEach\<close> whose result
  does not depend on the order); \<open>draggedTiles\<close> is an object keyed by index, so a key can
  be present with the value \<open>undefined\<close> (\<open>Some None\<close>). An index is an array position
  (the JSX passes the \<open>idx\<close> of \<open>cipherTiles.map\<close>), a natural number; it may lie
  beyond the end of the word.
\<close>

record cipher =
  cipherWord :: "string option"
  cipherTiles :: "TileData list"
  hiddenIndices :: "nat set"
  draggedTiles :: "nat \<rightharpoonup> TileData option"
  bankTiles :: "bank_item list"
  checkResult :: "check_result option"
  selectedBankTile :: "string option"

datatype error = TypeError

definition initial_cipher :: cipher where
  "initial_cipher =
     \<lparr>cipherWord = None, cipherTiles = [], hiddenIndices = {}, draggedTiles = Map.empty,
      bankTiles = [], checkResult = None, selectedBankTile = None\<rparr>"

text \<open>
  \<open>initCipherGame\<close>; \<open>parseWordToTiles\<close> comes from the absent \<open>utils\<close> module and is a
  parameter. The selected bank tile is not reset.
\<close>

definition initCipherGame :: "(string \<Rightarrow> TileData list) \<Rightarrow> string \<Rightarrow> cipher \<Rightarrow> cipher" where
  "initCipherGame parseWordToTiles word c =
     c\<lparr>cipherWord := Some word, cipherTiles := parseWordToTiles word, hiddenIndices := {},
       draggedTiles := Map.empty, bankTiles := [], checkResult := None\<rparr>"

text \<open>
  \<open>toggleTileHidden\<close>. \<open>shuffle\<close> is what \<open>.sort(() => Math.random() - 0.5)\<close> does to the
  bank on this call.
\<close>

definition toggleTileHidden :: "(bank_item list \<Rightarrow> bank_item list) \<Rightarrow> nat \<Rightarrow> cipher \<Rightarrow> cipher" where
  "toggleTileHidden shuffle index c =
     (let tile = at_index (cipherTiles c) index in
      if index \<in> hiddenIndices c then
        c\<lparr>bankTiles := filter (\<lambda>t. bank_id t \<noteq> ''bank-'' @ show_nat index) (bankTiles c),
          draggedTiles := (draggedTiles c)(index := None),
          hiddenIndices := hiddenIndices c - {index},
          checkResult := None\<rparr>
      else
        c\<lparr>bankTiles :=
            shuffle (bankTiles c @ [\<lparr>bank_id = ''bank-'' @ show_nat index, bank_tile = tile\<rparr>]),
          hiddenIndices := insert index (hiddenIndices c),
          checkResult := None\<rparr>)"

definition handleBankTileClick :: "string \<Rightarrow> cipher \<Rightarrow> cipher" where
  "handleBankTileClick bankId c =
     c\<lparr>selectedBankTile := (if selectedBankTile c = Some bankId then None else Some bankId)\<rparr>"

text \<open>\<open>handleSlotClick\<close>; \<open>now\<close> is the value of \<open>Date.now()\<close>.\<close>

definition handleSlotClick :: "nat \<Rightarrow> nat \<Rightarrow> cipher \<Rightarrow> cipher" where
  "handleSlotClick now index c =
     (if index \<notin> hiddenIndices c then c
      else if truthy (selectedBankTile c) then
        (case find (\<lambda>b. Some (bank_id b) = selectedBankTile c) (bankTiles c) of
           Some bankItem \<Rightarrow>
             c\<lparr>draggedTiles := (draggedTiles c)(index \<mapsto> bank_tile bankItem),
               bankTiles := filter (\<lambda>b. Some (bank_id b) \<noteq> selectedBankTile c) (bankTiles c),
               selectedBankTile := None,
               checkResult := None\<rparr>
         | None \<Rightarrow> c)
      else
        (case draggedTiles c index of
           Some (Some tileToRemove) \<Rightarrow>
             c\<lparr>draggedTiles := (draggedTiles c)(index := None),
               bankTiles := bankTiles c @
                 [\<lparr>bank_id = ''bank-returned-'' @ show_nat now, bank_tile = Some tileToRemove\<rparr>],
               checkResult := None\<rparr>
         | _ \<Rightarrow> c))"

text \<open>
  The comparison inside the \<open>forEach\<close> of \<open>checkCipherAnswer\<close>:
  \<open>draggedTiles[idx].text !== cipherTiles[idx].text\<close>. Reading \<open>.text\<close> of
  \<open>undefined\<close> throws a TypeError.
\<close>

definition slot_differs :: "cipher \<Rightarrow> nat \<Rightarrow> error + bool" where
  "slot_differs c idx =
     (case draggedTiles c idx of
        Some (Some placed) \<Rightarrow>
          (case at_index (cipherTiles c) idx of
             Some original \<Rightarrow> Inr (tile_text placed \<noteq> tile_text original)
           | None \<Rightarrow> Inl TypeError)
      | _ \<Rightarrow> Inl TypeError)"

text \<open>
  \<open>checkCipherAnswer\<close>. An exception leaves the handler before any setter is called. The
  loop only ever lowers \<open>correct\<close>, so it ends true exactly when no hidden index differs.
\<close>

definition checkCipherAnswer :: "cipher \<Rightarrow> playback \<Rightarrow> error + cipher \<times> playback" where
  "checkCipherAnswer c p =
     (if card (dom (draggedTiles c)) \<noteq> card (hiddenIndices c) then Inr (c, p)
      else if \<exists>idx \<in> hiddenIndices c. slot_differs c idx = Inl TypeError then Inl TypeError
      else
        (let correct = (\<forall>idx \<in> hiddenIndices c. slot_differs c idx = Inr False);
             c' = c\<lparr>checkResult := Some (if correct then Correct else Incorrect)\<rparr>
         in case cipherWord c of
              Some word \<Rightarrow>
                if correct \<and> word \<noteq> [] then Inr (c', speakWord (''Correct! '' @ word) None p)
                else Inr (c', speakWord ''Try again.'' None p)
            | None \<Rightarrow> Inr (c', speakWord ''Try again.'' None p)))"

text \<open>
  The states the game can be in: the component's initial cells, and whatever the handlers
  make of a reachable state. A tile is hidden or unhidden by its position in the word, and
  the shuffle returns a permutation of the bank. The overlay's close button and
  \<open>resetAll\<close> both clear \<open>cipherWord\<close> and nothing else of the game.
\<close>

inductive reachable :: "(string \<Rightarrow> TileData list) \<Rightarrow> cipher \<Rightarrow> bool"
  for parseWordToTiles :: "string \<Rightarrow> TileData list" where
  start: "reachable parseWordToTiles initial_cipher"
| init: "reachable parseWordToTiles c \<Longrightarrow>
         reachable parseWordToTiles (initCipherGame parseWordToTiles word c)"
| toggle: "reachable parseWordToTiles c \<Longrightarrow> index < length (cipherTiles c) \<Longrightarrow>
           (\<forall>xs. mset (shuffle xs) = mset xs) \<Longrightarrow>
           reachable parseWordToTiles (toggleTileHidden shuffle index c)"
| bank_click: "reachable parseWordToTiles c \<Longrightarrow>
               reachable parseWordToTiles (handleBankTileClick bankId c)"
| slot_click: "reachable parseWordToTiles c \<Longrightarrow>
               reachable parseWordToTiles (handleSlotClick now index c)"
| check: "reachable parseWordToTiles c \<Longrightarrow> checkCipherAnswer c p = Inr (c', p') \<Longrightarrow>
          reachable parseWordToTiles c'"
| close: "reachable parseWordToTiles c \<Longrightarrow>
          reachable parseWordToTiles (c\<lparr>cipherWord := None\<rparr>)"

text \<open>
  What every reachable state satisfies: the hidden set is finite, only hidden slots hold a
  placement, every hidden index is a position of the word, no bank entry and no placement
  holds \<open>undefined\<close>, and a check result is shown only while every hidden slot is filled.
\<close>

definition wf_cipher :: "cipher \<Rightarrow> bool" where
  "wf_cipher c =
     (finite (hiddenIndices c) \<and>
      dom (draggedTiles c) \<subseteq> hiddenIndices c \<and>
      (\<forall>i \<in> hiddenIndices c. i < length (cipherTiles c)) \<and>
      (\<forall>b \<in> set (bankTiles c). bank_tile b \<noteq> None) \<and>
      (\<forall>i. draggedTiles c i \<noteq> Some None) \<and>
      (checkResult c \<noteq> None \<longrightarrow> hiddenIndices c \<subseteq> dom (draggedTiles c)))"





text \<open>
  The states the running component can be in. Its JSX calls \<open>initCipherGame\<close>,
  \<open>handleBankTileClick\<close>, \<open>handleSlotClick\<close>, \<open>checkCipherAnswer\<close> and the two
  \<open>setCipherWord(null)\<close>; \<open>toggleTileHidden\<close> has no caller, so no rule applies it.
\<close>

inductive ui_reachable :: "(string \<Rightarrow> TileData list) \<Rightarrow> cipher \<Rightarrow> bool"
  for parseWordToTiles :: "string \<Rightarrow> TileData list" where
  ui_start: "ui_reachable parseWordToTiles initial_cipher"
| ui_init: "ui_reachable parseWordToTiles c \<Longrightarrow>
            ui_reachable parseWordToTiles (initCipherGame parseWordToTiles word c)"
| ui_bank_click: "ui_reachable parseWordToTiles c \<Longrightarrow>
                  ui_reachable parseWordToTiles (handleBankTileClick bankId c)"
| ui_slot_click: "ui_reachable parseWordToTiles c \<Longrightarrow>
                  ui_reachable parseWordToTiles (handleSlotClick now index c)"
| ui_check: "ui_reachable parseWordToTiles c \<Longrightarrow> checkCipherAnswer c p = Inr (c', p') \<Longrightarrow>
             ui_reachable parseWordToTiles c'"
| ui_close: "ui_reachable parseWordToTiles c \<Longrightarrow>
             ui_reachable parseWordToTiles (c\<lparr>cipherWord := None\<rparr>)"

subsection \<open>The section list\<close>

text \<open>
  Modelled from the spec: \<open>DictationSection\<close> is declared in the \<open>types\<close> module, which is
  not among the sources; the spec gives it as six named lists of strings, any of which may be
  absent.
\<close>

record DictationSection =
  sounds :: "string list option"
  realWords :: "string list option"
  wordElements :: "string list option"
  nonsenseWords :: "string list option"
  phrases :: "string list option"
  sentences :: "string list option"

text \<open>An entry of \<open>sections\<close> (the icon is left out).\<close>

record section_cfg =
  sec_title :: string
  sec_count :: nat
  sec_data :: "string list"

text \<open>\<open>data.x || []\<close>: an array is truthy, so only an absent list becomes empty.\<close>

definition or_empty :: "string list option \<Rightarrow> string list" where
  "or_empty x = (case x of None \<Rightarrow> [] | Some xs \<Rightarrow> xs)"

definition sections :: "DictationSection \<Rightarrow> section_cfg list" where
  "sections d =
     [\<lparr>sec_title = ''Sounds'', sec_count = 5, sec_data = or_empty (sounds d)\<rparr>,
      \<lparr>sec_title = ''Real Words'', sec_count = 5, sec_data = or_empty (realWords d)\<rparr>,
      \<lparr>sec_title = ''Word Elements'', sec_count = 5, sec_data = or_empty (wordElements d)\<rparr>,
      \<lparr>sec_title = ''Nonsense Words'', sec_count = 3, sec_data = or_empty (nonsenseWords d)\<rparr>,
      \<lparr>sec_title = ''Phrases'', sec_count = 3, sec_data = or_empty (phrases d)\<rparr>,
      \<lparr>sec_title = ''Sentences'', sec_count = 3, sec_data = or_empty (sentences d)\<rparr>]"

text \<open>
  What the list area renders, one value per child element: the notice for an empty list, an
  item in game mode (key, text), an item in standard mode (key, number badge, text, revealed,
  playing), and an empty-slot placeholder (key, number badge).
\<close>

datatype row =
    NoItems string
  | GameItem string string
  | StandardItem string nat string bool bool
  | EmptySlot string nat

definition item_row :: "bool \<Rightarrow> nat \<Rightarrow> string set \<Rightarrow> string option \<Rightarrow> nat \<Rightarrow> string \<Rightarrow> row" where
  "item_row gameMode activeTab revealedIds playing idx txt =
     (let uniqueId = show_nat activeTab @ ''-'' @ show_nat idx in
      if gameMode then GameItem uniqueId txt
      else StandardItem uniqueId (idx + 1) txt (uniqueId \<in> revealedIds) (playing = Some uniqueId))"

text \<open>\<open>currentSection.data.length === 0 ? notice : currentSection.data.map(...)\<close>\<close>

definition render_items :: "bool \<Rightarrow> nat \<Rightarrow> string set \<Rightarrow> string option \<Rightarrow> section_cfg \<Rightarrow> row list" where
  "render_items gameMode activeTab revealedIds playing sec =
     (if length (sec_data sec) = 0 then [NoItems (sec_title sec)]
      else map (\<lambda>(idx, txt). item_row gameMode activeTab revealedIds playing idx txt)
             (enumerate 0 (sec_data sec)))"

text \<open>
  \<open>Array.from({ length: Math.max(0, count - data.length) }).map((_, idx) => ...)\<close>
\<close>

definition render_placeholders :: "section_cfg \<Rightarrow> row list" where
  "render_placeholders sec =
     map (\<lambda>idx. EmptySlot (''empty-'' @ show_nat idx) (length (sec_data sec) + idx + 1))
       [0 ..< nat (max 0 (int (sec_count sec) - int (length (sec_data sec))))]"

definition render_list :: "bool \<Rightarrow> nat \<Rightarrow> string set \<Rightarrow> string option \<Rightarrow> section_cfg \<Rightarrow> row list" where
  "render_list gameMode activeTab revealedIds playing sec =
     render_items gameMode activeTab revealedIds playing sec @ render_placeholders sec"

text \<open>Reading a rendering: the text an item row shows, and whether a row is a placeholder.\<close>

fun item_text :: "row \<Rightarrow> string option" where
  "item_text (GameItem k t) = Some t"
| "item_text (StandardItem k n t r pl) = Some t"
| "item_text (NoItems t) = None"
| "item_text (EmptySlot k n) = None"

fun is_placeholder :: "row \<Rightarrow> bool" where
  "is_placeholder (EmptySlot k n) = True"
| "is_placeholder r = False"

fun shown_texts :: "row list \<Rightarrow> string list" where
  "shown_texts [] = []"
| "shown_texts (r # rs) =
     (case item_text r of Some t \<Rightarrow> t # shown_texts rs | None \<Rightarrow> shown_texts rs)"

subsection \<open>Scenarios\<close>

text \<open>
  Modelled from the spec: \<open>parseWordToTiles\<close> is in the absent \<open>utils\<close> module; the spec's
  scenario has it decompose the word cat into the tiles c, a, t. \<open>letterTiles\<close> is a
  decomposition that does so, one tile per character. It stands in for the parameter in the
  concrete scenarios only.
\<close>

definition letterTiles :: "string \<Rightarrow> TileData list" where
  "letterTiles word = map (\<lambda>ch. \<lparr>tile_text = [ch], tile_kind = ''letter''\<rparr>) word"

text \<open>The word cat loaded; then its tile 1 hidden; then that tile placed back in slot 1.\<close>

definition cat_loaded :: cipher where
  "cat_loaded = initCipherGame letterTiles ''cat'' initial_cipher"

definition cat_hidden :: cipher where
  "cat_hidden = toggleTileHidden id 1 cat_loaded"

definition cat_placed :: cipher where
  "cat_placed = handleSlotClick 0 1 (handleBankTileClick ''bank-1'' cat_hidden)"


text \<open>
  Tiles 0 and 1 hidden; then the tile of index 0 placed in slot 1; from there either the
  other tile goes to slot 0 (a wrong answer), or it is placed on the filled slot 1, or
  tile 1 is unhidden again.
\<close>

definition cat_two_hidden :: cipher where
  "cat_two_hidden = toggleTileHidden id 1 (toggleTileHidden id 0 cat_loaded)"

definition cat_misplaced :: cipher where
  "cat_misplaced = handleSlotClick 0 1 (handleBankTileClick ''bank-0'' cat_two_hidden)"

definition cat_swapped :: cipher where
  "cat_swapped = handleSlotClick 0 0 (handleBankTileClick ''bank-1'' cat_misplaced)"

definition cat_overwritten :: cipher where
  "cat_overwritten = handleSlotClick 0 1 (handleBankTileClick ''bank-1'' cat_misplaced)"

definition cat_lost :: cipher where
  "cat_lost = toggleTileHidden id 1 cat_misplaced"

text \<open>
  Both placed tiles of the wrong answer returned to the bank under the same value of
  \<open>Date.now()\<close>; then that bank identifier selected and placed in slot 0.
\<close>

definition cat_returned_twice :: cipher where
  "cat_returned_twice =
     handleSlotClick 1700000000000 1 (handleSlotClick 1700000000000 0 cat_swapped)"

definition cat_collided :: cipher where
  "cat_collided =
     handleSlotClick 1700000000500 0
       (handleBankTileClick (''bank-returned-'' @ show_nat 1700000000000) cat_returned_twice)"

text \<open>Playback cells with nothing loaded, and with the first item of tab 1 marked playing.\<close>

definition silent :: playback where
  "silent =
     \<lparr>voices = [], selectedVoiceURI = [], isSlow = False, playingId = None, speechQueue = []\<rparr>"

definition item_playing :: playback where
  "item_playing = silent\<lparr>playingId := Some ''1-0''\<rparr>"

text \<open>Three voices as a browser lists them.\<close>

definition david :: voice where
  "david =
     \<lparr>voice_name = ''Microsoft David - English (United States)'', voice_lang = ''en-US'',
      voiceURI = ''Microsoft David - English (United States)''\<rparr>"

definition katja :: voice where
  "katja =
     \<lparr>voice_name = ''Microsoft Katja Online (Natural) - German (Germany)'',
      voice_lang = ''de-DE'',
      voiceURI = ''Microsoft Katja Online (Natural) - German (Germany)''\<rparr>"

definition google_us :: voice where
  "google_us =
     \<lparr>voice_name = ''Google US English'', voice_lang = ''en-US'',
      voiceURI = ''Google US English''\<rparr>"

text \<open>
  One order the sort may leave with that comparator: the en-US voices first, each group in
  the order \<open>getVoices()\<close> gave.
\<close>

definition us_first :: "voice list \<Rightarrow> voice list" where
  "us_first vs =
     filter (\<lambda>v. voice_lang v = ''en-US'') vs @ filter (\<lambda>v. voice_lang v \<noteq> ''en-US'') vs"

text \<open>
  Three sections: one with fewer items than its count, one with more, and one whose list is
  absent.
\<close>

definition short_section :: section_cfg where
  "short_section =
     sections \<lparr>sounds = None, realWords = None, wordElements = None,
               nonsenseWords = Some [''zib'', ''plonk''], phrases = None, sentences = None\<rparr> ! 3"

definition long_section :: section_cfg where
  "long_section =
     sections \<lparr>sounds = None, realWords = None, wordElements = None, nonsenseWords = None,
               phrases = Some [''a red hat'', ''on the mat'', ''in the sun'', ''up the hill''],
               sentences = None\<rparr> ! 4"

definition empty_section :: section_cfg where
  "empty_section =
     sections \<lparr>sounds = None, realWords = None, wordElements = None, nonsenseWords = None,
               phrases = None, sentences = None\<rparr> ! 0"

section \<open>Evaluation helpers\<close>

lemma show_nat_digit: "n < 10 \<Longrightarrow> show_nat n = [digit_char n]"
  by (simp add: show_nat.simps)

lemma find_Some_in: "find P xs = Some x \<Longrightarrow> x \<in> set xs"
  by (induction xs) (auto split: if_splits)

lemma find_hd_filter:
  "find P xs = (if \<exists>x \<in> set xs. P x then Some (hd (filter P xs)) else None)"
  by (induction xs) auto

lemma at_index_0: "vs \<noteq> [] \<Longrightarrow> at_index vs 0 = Some (hd vs)"
  by (cases vs) (simp_all add: at_index_def)

section \<open>Reveal tracker\<close>

text \<open>
  Claim C6. For every identifier and every revealed set, \<open>toggleReveal\<close> flips the
  membership of that identifier and of no other, so toggling the same identifier twice gives
  back the revealed set it started from.
\<close>

theorem toggleReveal_involution:
  "(\<forall>x. (x \<in> toggleReveal ident revealedIds) =
          (if x = ident then ident \<notin> revealedIds else x \<in> revealedIds)) \<and>
   toggleReveal ident (toggleReveal ident revealedIds) = revealedIds"
  by (auto simp: toggleReveal_def)

section \<open>Playback\<close>

lemma cleanText_filter: "cleanText s = filter (\<lambda>ch. ch \<notin> set markupChars) s"
  by (induction s) simp_all

lemma speakWord_queue:
  "\<exists>u. speechQueue (speakWord txt ident p) = [u] \<and> utt_text u = cleanText txt \<and>
       utt_rate u = (if isSlow p then 0.5 else 0.9) \<and>
       onstart u = (if truthy ident then Some (SetPlayingId ident) else None) \<and>
       onend u = (if truthy ident then Some (SetPlayingId None) else None) \<and>
       onerror u = (if truthy ident then Some (SetPlayingId None) else None)"
  by (simp add: speakWord_def Let_def new_utterance_def split: option.splits)

lemma speakWord_frame:
  "playingId (speakWord txt ident p) = playingId p \<and>
   voices (speakWord txt ident p) = voices p \<and>
   selectedVoiceURI (speakWord txt ident p) = selectedVoiceURI p \<and>
   isSlow (speakWord txt ident p) = isSlow p"
  by (simp add: speakWord_def Let_def)

text \<open>
  An utterance queued with an identifier: its start handler stores the identifier, its end
  and error handlers store \<open>null\<close>. When the engine fires them, and in what order across
  two utterances, is the engine's affair.
\<close>

lemma queued_with_id_handlers:
  assumes "truthy ident"
  shows "\<exists>u. speechQueue (speakWord s ident p) = [u] \<and>
             playingId (dispatch Start u q) = ident \<and>
             playingId (dispatch End u q) = None \<and>
             playingId (dispatch Error u q) = None"
proof -
  from speakWord_queue [where p = p and ident = ident] assms obtain u where
    u: "speechQueue (speakWord s ident p) = [u]" "onstart u = Some (SetPlayingId ident)"
       "onend u = Some (SetPlayingId None)" "onerror u = Some (SetPlayingId None)"
    by auto
  then show ?thesis
    by (auto simp: dispatch_def handler_of_def)
qed

text \<open>
  Claim C5. For every text, \<open>speakWord\<close> leaves exactly its own utterance in the engine's
  queue, whatever was queued before (the cancel comes first); the utterance's text is the
  input without any slash, backslash, brace, bracket or hyphen, every other character kept
  in order; and its rate is 0.5 when the slow toggle is on and 0.9 when it is off.
\<close>

theorem speakWord_cancels_cleans_rates:
  "\<exists>u. speechQueue (speakWord txt ident p) = [u] \<and>
       utt_text u =
         filter (\<lambda>ch. ch \<notin> {CHR ''/'', CHR 0x5C, CHR ''{'', CHR ''}'', CHR ''['', CHR '']'',
                            CHR ''-''}) txt \<and>
       set (utt_text u) \<inter>
         {CHR ''/'', CHR 0x5C, CHR ''{'', CHR ''}'', CHR ''['', CHR '']'', CHR ''-''} = {} \<and>
       utt_rate u = (if isSlow p then 0.5 else 0.9)"
proof -
  from speakWord_queue [where p = p and ident = ident] obtain u where
    u: "speechQueue (speakWord txt ident p) = [u]" "utt_text u = cleanText txt"
       "utt_rate u = (if isSlow p then 0.5 else 0.9)"
    by blast
  have kept: "utt_text u =
         filter (\<lambda>ch. ch \<notin> {CHR ''/'', CHR 0x5C, CHR ''{'', CHR ''}'', CHR ''['', CHR '']'',
                            CHR ''-''}) txt"
    using u(2) by (simp add: cleanText_filter markupChars_def)
  from kept have "set (utt_text u) \<inter>
         {CHR ''/'', CHR 0x5C, CHR ''{'', CHR ''}'', CHR ''['', CHR '']'', CHR ''-''} = {}"
    by auto
  with kept u(1,3) show ?thesis by blast
qed

text \<open>
  What \<open>checkCipherAnswer\<close> does to the playback cells: nothing, or one \<open>speakWord\<close>
  without an identifier.
\<close>

lemma check_speaks_without_id:
  "checkCipherAnswer c p = Inr (c', p') \<Longrightarrow> p' = p \<or> (\<exists>t. p' = speakWord t None p)"
  by (auto simp: checkCipherAnswer_def Let_def split: if_splits option.splits)

text \<open>
  Claim C10. \<open>speakWord\<close> without an identifier leaves \<open>playingId\<close> as it was; the
  utterance it queues has no start, end or error handler, so no event the engine fires on
  it changes any playback cell; and \<open>checkCipherAnswer\<close>, which speaks its feedback this
  way, leaves \<open>playingId\<close> as it was. (An utterance queued earlier with an identifier
  keeps the handlers that call gave it; what the engine fires on it when it is cancelled
  is not part of this call.)
\<close>

theorem speak_without_id_frame:
  "playingId (speakWord txt None p) = playingId p \<and>
   (\<exists>u. speechQueue (speakWord txt None p) = [u] \<and>
        onstart u = None \<and> onend u = None \<and> onerror u = None \<and>
        (\<forall>ev q. dispatch ev u q = q)) \<and>
   (\<forall>c c' p'. checkCipherAnswer c p = Inr (c', p') \<longrightarrow>
        playingId p' = playingId p \<and>
        (p' = p \<or> (\<exists>t. p' = speakWord t None p)))"
proof (intro conjI allI impI)
  show "playingId (speakWord txt None p) = playingId p"
    by (simp add: speakWord_frame)
next
  from speakWord_queue [where p = p and ident = None] obtain u where
    u: "speechQueue (speakWord txt None p) = [u]"
       "onstart u = None" "onend u = None" "onerror u = None"
    by (auto simp: truthy_def)
  have "dispatch ev u q = q" for ev q
    using u(2-4) by (cases ev) (simp_all add: dispatch_def handler_of_def)
  with u show "\<exists>u. speechQueue (speakWord txt None p) = [u] \<and>
        onstart u = None \<and> onend u = None \<and> onerror u = None \<and>
        (\<forall>ev q. dispatch ev u q = q)"
    by blast
next
  fix c c' p'
  assume "checkCipherAnswer c p = Inr (c', p')"
  from check_speaks_without_id [OF this]
  show "p' = p \<or> (\<exists>t. p' = speakWord t None p)" .
  then show "playingId p' = playingId p"
    by (auto simp: speakWord_frame)
qed

lemma us_first_katja_david: "us_first [katja, david] = [david, katja]"
  by (simp add: us_first_def david_def katja_def)

lemma best_voice_david_katja: "best_voice [david, katja] = Some katja"
  by (simp add: best_voice_def or_else_def david_def katja_def)

text \<open>
  Claim C8, as the spec states it, at two voices: a German voice whose name contains Natural
  and an en-US voice, sorted with the en-US voice first. The default selection is the German
  voice, although a U.S. English voice is available.
\<close>

theorem default_voice_not_us_english:
  "selectedVoiceURI (loadVoices us_first [katja, david] silent) = voiceURI katja \<and>
   voice_lang katja = ''de-DE'' \<and> voice_lang david = ''en-US'' \<and>
   voiceURI david \<noteq> voiceURI katja"
  by (simp add: loadVoices_def Let_def us_first_katja_david best_voice_david_katja silent_def)
     (simp add: david_def katja_def)

text \<open>
  Claim C8, amended. When no voice is selected and the sorted voice list is not empty,
  \<open>loadVoices\<close> stores the sorted list and selects, in that list's order: the first voice
  whose name contains Google US English; failing that the first whose name contains Natural,
  whatever its language; failing that the first whose language is en-US; failing that the
  first voice of the list.
\<close>

theorem default_voice_priority:
  assumes "selectedVoiceURI p = []" and "sortImpl getVoices = vs" and "vs \<noteq> []"
  shows "voices (loadVoices sortImpl getVoices p) = vs \<and>
         selectedVoiceURI (loadVoices sortImpl getVoices p) =
           voiceURI
             (if \<exists>v \<in> set vs. str_includes (voice_name v) ''Google US English''
              then hd (filter (\<lambda>v. str_includes (voice_name v) ''Google US English'') vs)
              else if \<exists>v \<in> set vs. str_includes (voice_name v) ''Natural''
              then hd (filter (\<lambda>v. str_includes (voice_name v) ''Natural'') vs)
              else if \<exists>v \<in> set vs. voice_lang v = ''en-US''
              then hd (filter (\<lambda>v. voice_lang v = ''en-US'') vs)
              else hd vs)"
  using assms
  by (simp add: loadVoices_def Let_def best_voice_def or_else_def find_hd_filter at_index_0)

text \<open>
  With a Google US English voice third in the sorted list, behind another en-US voice and
  ahead of a Natural voice, the Google voice is the one selected.
\<close>

theorem default_voice_priority_witness:
  "selectedVoiceURI silent = [] \<and>
   us_first [katja, david, google_us] = [david, google_us, katja] \<and>
   [david, google_us, katja] \<noteq> [] \<and>
   voices (loadVoices us_first [katja, david, google_us] silent) = [david, google_us, katja] \<and>
   selectedVoiceURI (loadVoices us_first [katja, david, google_us] silent) =
     ''Google US English''"
proof -
  have h: "selectedVoiceURI silent = []"
    by (simp add: silent_def)
  have r: "us_first [katja, david, google_us] = [david, google_us, katja]"
    by (simp add: us_first_def david_def katja_def google_us_def)
  have ne: "[david, google_us, katja] \<noteq> []"
    by simp
  have g: "str_includes (voice_name google_us) ''Google US English''"
    by (simp add: google_us_def)
  have nd: "\<not> str_includes (voice_name david) ''Google US English''"
    by (simp add: david_def)
  have uri: "voiceURI google_us = ''Google US English''"
    by (simp add: google_us_def)
  from default_voice_priority
         [where p = silent and sortImpl = us_first and getVoices = "[katja, david, google_us]"
            and vs = "[david, google_us, katja]", OF h r ne]
       h r g nd uri
  show ?thesis by simp
qed

subsection \<open>The single-tile scenario, evaluated\<close>

lemma cat_loaded_eq:
  "cat_loaded = \<lparr>cipherWord = Some ''cat'',
     cipherTiles = [\<lparr>tile_text = ''c'', tile_kind = ''letter''\<rparr>,
                    \<lparr>tile_text = ''a'', tile_kind = ''letter''\<rparr>,
                    \<lparr>tile_text = ''t'', tile_kind = ''letter''\<rparr>],
     hiddenIndices = {}, draggedTiles = Map.empty, bankTiles = [], checkResult = None,
     selectedBankTile = None\<rparr>"
  by (simp add: cat_loaded_def initCipherGame_def initial_cipher_def letterTiles_def)

lemma cat_hidden_eq:
  "cat_hidden = \<lparr>cipherWord = Some ''cat'',
     cipherTiles = [\<lparr>tile_text = ''c'', tile_kind = ''letter''\<rparr>,
                    \<lparr>tile_text = ''a'', tile_kind = ''letter''\<rparr>,
                    \<lparr>tile_text = ''t'', tile_kind = ''letter''\<rparr>],
     hiddenIndices = {1}, draggedTiles = Map.empty,
     bankTiles = [\<lparr>bank_id = ''bank-1'',
                   bank_tile = Some \<lparr>tile_text = ''a'', tile_kind = ''letter''\<rparr>\<rparr>],
     checkResult = None, selectedBankTile = None\<rparr>"
  by (simp add: cat_hidden_def cat_loaded_eq toggleTileHidden_def at_index_def show_nat_digit
        digit_char_def)

lemma cat_placed_eq:
  "cat_placed = \<lparr>cipherWord = Some ''cat'',
     cipherTiles = [\<lparr>tile_text = ''c'', tile_kind = ''letter''\<rparr>,
                    \<lparr>tile_text = ''a'', tile_kind = ''letter''\<rparr>,
                    \<lparr>tile_text = ''t'', tile_kind = ''letter''\<rparr>],
     hiddenIndices = {1},
     draggedTiles = [1 \<mapsto> Some \<lparr>tile_text = ''a'', tile_kind = ''letter''\<rparr>],
     bankTiles = [], checkResult = None, selectedBankTile = None\<rparr>"
  by (simp add: cat_placed_def cat_hidden_eq handleSlotClick_def handleBankTileClick_def
        truthy_def)

text \<open>
  The feedback of a correct answer, spoken while a list item is still marked as playing.
\<close>

theorem speak_without_id_frame_witness:
  "checkCipherAnswer cat_placed item_playing =
     Inr (cat_placed\<lparr>checkResult := Some Correct\<rparr>,
          speakWord ''Correct! cat'' None item_playing) \<and>
   playingId (speakWord ''Correct! cat'' None item_playing) = Some ''1-0''"
proof -
  have ch: "checkCipherAnswer cat_placed item_playing =
     Inr (cat_placed\<lparr>checkResult := Some Correct\<rparr>,
          speakWord ''Correct! cat'' None item_playing)"
    by (simp add: checkCipherAnswer_def cat_placed_eq slot_differs_def at_index_def)
  from speak_without_id_frame [of "''Correct! cat''" item_playing] ch
  have "playingId (speakWord ''Correct! cat'' None item_playing) = playingId item_playing"
    by blast
  with ch show ?thesis
    by (simp add: item_playing_def)
qed

section \<open>Cipher game\<close>

subsection \<open>What every reachable state satisfies\<close>

lemma wf_initial: "wf_cipher initial_cipher"
  by (simp add: wf_cipher_def initial_cipher_def)

lemma wf_init: "wf_cipher (initCipherGame parseWordToTiles word c)"
  by (simp add: wf_cipher_def initCipherGame_def)

lemma set_shuffle: "\<forall>xs. mset (shuffle xs) = mset xs \<Longrightarrow> set (shuffle xs) = set xs"
  by (metis set_mset_mset)

lemma wf_toggle:
  assumes "wf_cipher c" and "index < length (cipherTiles c)"
    and "\<forall>xs. mset (shuffle xs) = mset xs"
  shows "wf_cipher (toggleTileHidden shuffle index c)"
  using assms
  by (auto simp: wf_cipher_def toggleTileHidden_def Let_def at_index_def set_shuffle dom_def)

lemma wf_bank_click: "wf_cipher c \<Longrightarrow> wf_cipher (handleBankTileClick bankId c)"
  by (simp add: wf_cipher_def handleBankTileClick_def)

lemma wf_slot_click: "wf_cipher c \<Longrightarrow> wf_cipher (handleSlotClick now index c)"
  by (auto simp: wf_cipher_def handleSlotClick_def dom_def dest: find_Some_in
      split: option.splits)

lemma wf_check:
  assumes wf: "wf_cipher c" and ch: "checkCipherAnswer c p = Inr (c', p')"
  shows "wf_cipher c'"
proof (cases "card (dom (draggedTiles c)) \<noteq> card (hiddenIndices c)")
  case True
  with ch have "c' = c"
    by (simp add: checkCipherAnswer_def)
  with wf show ?thesis by simp
next
  case False
  from wf have fin: "finite (hiddenIndices c)"
    and sub: "dom (draggedTiles c) \<subseteq> hiddenIndices c"
    by (simp_all add: wf_cipher_def)
  from False fin sub have eq: "dom (draggedTiles c) = hiddenIndices c"
    by (simp add: card_subset_eq)
  from ch False obtain r where "c' = c\<lparr>checkResult := r\<rparr>"
    by (auto simp: checkCipherAnswer_def Let_def split: if_splits option.splits)
  with wf eq show ?thesis
    by (simp add: wf_cipher_def)
qed

lemma wf_close: "wf_cipher c \<Longrightarrow> wf_cipher (c\<lparr>cipherWord := None\<rparr>)"
  by (simp add: wf_cipher_def)

lemma reachable_wf: "reachable parseWordToTiles c \<Longrightarrow> wf_cipher c"
  by (induction rule: reachable.induct)
     (simp_all add: wf_initial wf_init wf_toggle wf_bank_click wf_slot_click wf_check wf_close)

subsection \<open>The scenarios, evaluated\<close>

lemma cat_two_hidden_eq:
  "cat_two_hidden = \<lparr>cipherWord = Some ''cat'',
     cipherTiles = [\<lparr>tile_text = ''c'', tile_kind = ''letter''\<rparr>,
                    \<lparr>tile_text = ''a'', tile_kind = ''letter''\<rparr>,
                    \<lparr>tile_text = ''t'', tile_kind = ''letter''\<rparr>],
     hiddenIndices = {0, 1}, draggedTiles = Map.empty,
     bankTiles = [\<lparr>bank_id = ''bank-0'',
                   bank_tile = Some \<lparr>tile_text = ''c'', tile_kind = ''letter''\<rparr>\<rparr>,
                  \<lparr>bank_id = ''bank-1'',
                   bank_tile = Some \<lparr>tile_text = ''a'', tile_kind = ''letter''\<rparr>\<rparr>],
     checkResult = None, selectedBankTile = None\<rparr>"
  by (simp add: cat_two_hidden_def cat_loaded_eq toggleTileHidden_def at_index_def
        show_nat_digit digit_char_def insert_commute)

lemma cat_misplaced_eq:
  "cat_misplaced = \<lparr>cipherWord = Some ''cat'',
     cipherTiles = [\<lparr>tile_text = ''c'', tile_kind = ''letter''\<rparr>,
                    \<lparr>tile_text = ''a'', tile_kind = ''letter''\<rparr>,
                    \<lparr>tile_text = ''t'', tile_kind = ''letter''\<rparr>],
     hiddenIndices = {0, 1},
     draggedTiles = [1 \<mapsto> Some \<lparr>tile_text = ''c'', tile_kind = ''letter''\<rparr>],
     bankTiles = [\<lparr>bank_id = ''bank-1'',
                   bank_tile = Some \<lparr>tile_text = ''a'', tile_kind = ''letter''\<rparr>\<rparr>],
     checkResult = None, selectedBankTile = None\<rparr>"
  by (simp add: cat_misplaced_def cat_two_hidden_eq handleSlotClick_def
        handleBankTileClick_def truthy_def)

lemma cat_swapped_eq:
  "cat_swapped = \<lparr>cipherWord = Some ''cat'',
     cipherTiles = [\<lparr>tile_text = ''c'', tile_kind = ''letter''\<rparr>,
                    \<lparr>tile_text = ''a'', tile_kind = ''letter''\<rparr>,
                    \<lparr>tile_text = ''t'', tile_kind = ''letter''\<rparr>],
     hiddenIndices = {0, 1},
     draggedTiles = [1 \<mapsto> Some \<lparr>tile_text = ''c'', tile_kind = ''letter''\<rparr>,
                     0 \<mapsto> Some \<lparr>tile_text = ''a'', tile_kind = ''letter''\<rparr>],
     bankTiles = [], checkResult = None, selectedBankTile = None\<rparr>"
  by (simp add: cat_swapped_def cat_misplaced_eq handleSlotClick_def handleBankTileClick_def
        truthy_def)

lemma cat_overwritten_eq:
  "cat_overwritten = \<lparr>cipherWord = Some ''cat'',
     cipherTiles = [\<lparr>tile_text = ''c'', tile_kind = ''letter''\<rparr>,
                    \<lparr>tile_text = ''a'', tile_kind = ''letter''\<rparr>,
                    \<lparr>tile_text = ''t'', tile_kind = ''letter''\<rparr>],
     hiddenIndices = {0, 1},
     draggedTiles = [1 \<mapsto> Some \<lparr>tile_text = ''a'', tile_kind = ''letter''\<rparr>],
     bankTiles = [], checkResult = None, selectedBankTile = None\<rparr>"
  by (simp add: cat_overwritten_def cat_misplaced_eq handleSlotClick_def
        handleBankTileClick_def truthy_def)

lemma cat_lost_eq:
  "cat_lost = \<lparr>cipherWord = Some ''cat'',
     cipherTiles = [\<lparr>tile_text = ''c'', tile_kind = ''letter''\<rparr>,
                    \<lparr>tile_text = ''a'', tile_kind = ''letter''\<rparr>,
                    \<lparr>tile_text = ''t'', tile_kind = ''letter''\<rparr>],
     hiddenIndices = {0}, draggedTiles = Map.empty, bankTiles = [],
     checkResult = None, selectedBankTile = None\<rparr>"
  by (simp add: cat_lost_def cat_misplaced_eq toggleTileHidden_def at_index_def show_nat_digit
        digit_char_def) auto

lemma cat_returned_twice_eq:
  "cat_returned_twice = \<lparr>cipherWord = Some ''cat'',
     cipherTiles = [\<lparr>tile_text = ''c'', tile_kind = ''letter''\<rparr>,
                    \<lparr>tile_text = ''a'', tile_kind = ''letter''\<rparr>,
                    \<lparr>tile_text = ''t'', tile_kind = ''letter''\<rparr>],
     hiddenIndices = {0, 1}, draggedTiles = Map.empty,
     bankTiles = [\<lparr>bank_id = ''bank-returned-'' @ show_nat 1700000000000,
                   bank_tile = Some \<lparr>tile_text = ''a'', tile_kind = ''letter''\<rparr>\<rparr>,
                  \<lparr>bank_id = ''bank-returned-'' @ show_nat 1700000000000,
                   bank_tile = Some \<lparr>tile_text = ''c'', tile_kind = ''letter''\<rparr>\<rparr>],
     checkResult = None, selectedBankTile = None\<rparr>"
  by (simp add: cat_returned_twice_def cat_swapped_eq handleSlotClick_def truthy_def)

lemma cat_collided_eq:
  "cat_collided = \<lparr>cipherWord = Some ''cat'',
     cipherTiles = [\<lparr>tile_text = ''c'', tile_kind = ''letter''\<rparr>,
                    \<lparr>tile_text = ''a'', tile_kind = ''letter''\<rparr>,
                    \<lparr>tile_text = ''t'', tile_kind = ''letter''\<rparr>],
     hiddenIndices = {0, 1},
     draggedTiles = [0 \<mapsto> Some \<lparr>tile_text = ''a'', tile_kind = ''letter''\<rparr>],
     bankTiles = [], checkResult = None, selectedBankTile = None\<rparr>"
  by (simp add: cat_collided_def cat_returned_twice_eq handleSlotClick_def
        handleBankTileClick_def truthy_def)

lemma reachable_cat_loaded: "reachable letterTiles cat_loaded"
  unfolding cat_loaded_def by (rule reachable.init [OF reachable.start])

lemma reachable_cat_hidden: "reachable letterTiles cat_hidden"
  unfolding cat_hidden_def
  by (rule reachable.toggle [OF reachable_cat_loaded]) (simp_all add: cat_loaded_eq)

lemma reachable_cat_placed: "reachable letterTiles cat_placed"
  unfolding cat_placed_def
  by (rule reachable.slot_click [OF reachable.bank_click [OF reachable_cat_hidden]])

lemma reachable_cat_misplaced: "reachable letterTiles cat_misplaced"
proof -
  have r1: "reachable letterTiles (toggleTileHidden id 0 cat_loaded)"
    by (rule reachable.toggle [OF reachable_cat_loaded]) (simp_all add: cat_loaded_eq)
  have r2: "reachable letterTiles cat_two_hidden"
    unfolding cat_two_hidden_def
    by (rule reachable.toggle [OF r1]) (simp_all add: cat_loaded_eq toggleTileHidden_def)
  show ?thesis
    unfolding cat_misplaced_def
    by (rule reachable.slot_click [OF reachable.bank_click [OF r2]])
qed

lemma reachable_cat_swapped: "reachable letterTiles cat_swapped"
  unfolding cat_swapped_def
  by (rule reachable.slot_click [OF reachable.bank_click [OF reachable_cat_misplaced]])

lemma reachable_cat_overwritten: "reachable letterTiles cat_overwritten"
  unfolding cat_overwritten_def
  by (rule reachable.slot_click [OF reachable.bank_click [OF reachable_cat_misplaced]])

lemma reachable_cat_collided: "reachable letterTiles cat_collided"
  unfolding cat_collided_def cat_returned_twice_def
  by (intro reachable.slot_click reachable.bank_click reachable_cat_swapped)

lemma reachable_cat_lost: "reachable letterTiles cat_lost"
  unfolding cat_lost_def
  by (rule reachable.toggle [OF reachable_cat_misplaced]) (simp_all add: cat_misplaced_eq)

subsection \<open>Placements and the hidden set\<close>

text \<open>
  Claim C9. In every reachable state each key of \<open>draggedTiles\<close> is an element of
  \<open>hiddenIndices\<close>. The steps that keep it so: loading a word empties both, a slot click
  on an index that is not hidden changes nothing, and unhiding an index deletes the
  placement at that index.
\<close>

theorem placed_keys_hidden:
  assumes "reachable parseWordToTiles c"
  shows "dom (draggedTiles c) \<subseteq> hiddenIndices c \<and>
         hiddenIndices (initCipherGame parseWordToTiles word c) = {} \<and>
         draggedTiles (initCipherGame parseWordToTiles word c) = Map.empty \<and>
         (index \<notin> hiddenIndices c \<longrightarrow> handleSlotClick now index c = c) \<and>
         (index \<in> hiddenIndices c \<longrightarrow>
            index \<notin> hiddenIndices (toggleTileHidden shuffle index c) \<and>
            draggedTiles (toggleTileHidden shuffle index c) index = None)"
proof -
  from reachable_wf [OF assms] have "dom (draggedTiles c) \<subseteq> hiddenIndices c"
    by (simp add: wf_cipher_def)
  then show ?thesis
    by (simp add: initCipherGame_def handleSlotClick_def toggleTileHidden_def Let_def)
qed

text \<open>
  In the wrong-answer state both placements sit on hidden slots; a click on slot 2, which is
  not hidden, changes nothing; unhiding tile 1 removes its slot's placement with it.
\<close>

theorem placed_keys_hidden_witness:
  "reachable letterTiles cat_swapped \<and>
   dom (draggedTiles cat_swapped) = {0, 1} \<and> hiddenIndices cat_swapped = {0, 1} \<and>
   2 \<notin> hiddenIndices cat_swapped \<and> handleSlotClick 7 2 cat_swapped = cat_swapped \<and>
   1 \<in> hiddenIndices cat_swapped \<and>
   hiddenIndices (toggleTileHidden id 1 cat_swapped) = {0} \<and>
   dom (draggedTiles (toggleTileHidden id 1 cat_swapped)) = {0}"
proof -
  have d: "dom (draggedTiles cat_swapped) = {0, 1}"
    by (auto simp: cat_swapped_eq)
  have h: "hiddenIndices cat_swapped = {0, 1}"
    by (simp add: cat_swapped_eq)
  have u: "hiddenIndices (toggleTileHidden id 1 cat_swapped) = {0}"
    by (auto simp: toggleTileHidden_def h)
  have ud: "dom (draggedTiles (toggleTileHidden id 1 cat_swapped)) =
              dom (draggedTiles cat_swapped) - {1}"
    by (simp add: toggleTileHidden_def h)
  from placed_keys_hidden [OF reachable_cat_swapped, where index = 2 and now = 7] h
  have s: "handleSlotClick 7 2 cat_swapped = cat_swapped"
    by simp
  from reachable_cat_swapped d h u ud s show ?thesis
    by auto
qed

subsection \<open>Checking the answer\<close>

lemma slot_differs_wf:
  assumes "wf_cipher c" and "i \<in> hiddenIndices c" and "i \<in> dom (draggedTiles c)"
  shows "\<exists>t. draggedTiles c i = Some (Some t) \<and>
             slot_differs c i = Inr (tile_text t \<noteq> tile_text (cipherTiles c ! i))"
proof -
  from assms(3) obtain v where v: "draggedTiles c i = Some v"
    by auto
  from assms(1) have "draggedTiles c i \<noteq> Some None"
    by (simp add: wf_cipher_def)
  with v obtain t where t: "draggedTiles c i = Some (Some t)"
    by (cases v) auto
  from assms(1,2) have "i < length (cipherTiles c)"
    by (simp add: wf_cipher_def)
  with t show ?thesis
    by (simp add: slot_differs_def at_index_def)
qed

text \<open>
  Claim C2. In every state the game can reach: when some hidden index has no placement,
  \<open>checkCipherAnswer\<close> returns the game and playback cells unchanged, and the result is
  still none; when every hidden index has a placement, it returns without an exception and
  sets the result to correct if at every hidden index the placed tile's text equals the text
  of the word's tile at that index, and to incorrect otherwise, changing no other game cell.
\<close>

theorem check_on_reachable:
  assumes "reachable parseWordToTiles c"
  shows "(\<not> hiddenIndices c \<subseteq> dom (draggedTiles c) \<longrightarrow>
            checkCipherAnswer c p = Inr (c, p) \<and> checkResult c = None) \<and>
         (hiddenIndices c \<subseteq> dom (draggedTiles c) \<longrightarrow>
            (\<exists>p'. checkCipherAnswer c p =
               Inr (c\<lparr>checkResult := Some
                      (if \<forall>i \<in> hiddenIndices c. \<exists>t. draggedTiles c i = Some (Some t) \<and>
                            tile_text t = tile_text (cipherTiles c ! i)
                       then Correct else Incorrect)\<rparr>, p')))"
proof (intro conjI impI)
  have wf: "wf_cipher c"
    by (rule reachable_wf [OF assms])
  then have fin: "finite (hiddenIndices c)"
    and sub: "dom (draggedTiles c) \<subseteq> hiddenIndices c"
    by (simp_all add: wf_cipher_def)
  {
    assume nc: "\<not> hiddenIndices c \<subseteq> dom (draggedTiles c)"
    with sub have "dom (draggedTiles c) \<subset> hiddenIndices c"
      by auto
    with fin have "card (dom (draggedTiles c)) < card (hiddenIndices c)"
      by (rule psubset_card_mono)
    then show "checkCipherAnswer c p = Inr (c, p)"
      by (simp add: checkCipherAnswer_def)
    from wf nc show "checkResult c = None"
      by (auto simp: wf_cipher_def)
  }
  {
    assume cov: "hiddenIndices c \<subseteq> dom (draggedTiles c)"
    with sub have eq: "dom (draggedTiles c) = hiddenIndices c"
      by auto
    have sd: "\<And>i. i \<in> hiddenIndices c \<Longrightarrow>
                \<exists>t. draggedTiles c i = Some (Some t) \<and>
                    slot_differs c i = Inr (tile_text t \<noteq> tile_text (cipherTiles c ! i))"
      using slot_differs_wf [OF wf] cov by blast
    have no_throw: "\<not> (\<exists>idx \<in> hiddenIndices c. slot_differs c idx = Inl TypeError)"
      using sd by fastforce
    have corr: "(\<forall>idx \<in> hiddenIndices c. slot_differs c idx = Inr False) =
                (\<forall>i \<in> hiddenIndices c. \<exists>t. draggedTiles c i = Some (Some t) \<and>
                            tile_text t = tile_text (cipherTiles c ! i))"
      using sd by fastforce
    show "\<exists>p'. checkCipherAnswer c p =
               Inr (c\<lparr>checkResult := Some
                      (if \<forall>i \<in> hiddenIndices c. \<exists>t. draggedTiles c i = Some (Some t) \<and>
                            tile_text t = tile_text (cipherTiles c ! i)
                       then Correct else Incorrect)\<rparr>, p')"
      unfolding checkCipherAnswer_def Let_def corr
      using no_throw eq by (auto split: option.splits)
  }
qed

text \<open>
  The spec's scenarios: with tile 1 of cat hidden and not yet placed the check changes
  nothing; with it placed back the result is correct; with the tiles of indices 0 and 1
  placed in each other's slots the result is incorrect.
\<close>

theorem check_on_reachable_witness:
  "reachable letterTiles cat_hidden \<and>
   \<not> hiddenIndices cat_hidden \<subseteq> dom (draggedTiles cat_hidden) \<and>
   checkCipherAnswer cat_hidden silent = Inr (cat_hidden, silent) \<and>
   reachable letterTiles cat_placed \<and>
   hiddenIndices cat_placed \<subseteq> dom (draggedTiles cat_placed) \<and>
   (\<exists>p'. checkCipherAnswer cat_placed silent =
           Inr (cat_placed\<lparr>checkResult := Some Correct\<rparr>, p')) \<and>
   reachable letterTiles cat_swapped \<and>
   hiddenIndices cat_swapped \<subseteq> dom (draggedTiles cat_swapped) \<and>
   (\<exists>p'. checkCipherAnswer cat_swapped silent =
           Inr (cat_swapped\<lparr>checkResult := Some Incorrect\<rparr>, p'))"
proof -
  have h1: "\<not> hiddenIndices cat_hidden \<subseteq> dom (draggedTiles cat_hidden)"
    by (simp add: cat_hidden_eq)
  have h2: "hiddenIndices cat_placed \<subseteq> dom (draggedTiles cat_placed)"
    by (simp add: cat_placed_eq)
  have h3: "hiddenIndices cat_swapped \<subseteq> dom (draggedTiles cat_swapped)"
    by (simp add: cat_swapped_eq)
  have m2: "\<forall>i \<in> hiddenIndices cat_placed. \<exists>t. draggedTiles cat_placed i = Some (Some t) \<and>
              tile_text t = tile_text (cipherTiles cat_placed ! i)"
    by (simp add: cat_placed_eq)
  have m3: "\<not> (\<forall>i \<in> hiddenIndices cat_swapped.
                \<exists>t. draggedTiles cat_swapped i = Some (Some t) \<and>
                    tile_text t = tile_text (cipherTiles cat_swapped ! i))"
    by (simp add: cat_swapped_eq)
  from check_on_reachable [OF reachable_cat_hidden, of silent] h1
  have c1: "checkCipherAnswer cat_hidden silent = Inr (cat_hidden, silent)"
    by simp
  from check_on_reachable [OF reachable_cat_placed, of silent] h2 m2
  have c2: "\<exists>p'. checkCipherAnswer cat_placed silent =
                 Inr (cat_placed\<lparr>checkResult := Some Correct\<rparr>, p')"
    by simp
  from check_on_reachable [OF reachable_cat_swapped, of silent] h3 m3
  have c3: "\<exists>p'. checkCipherAnswer cat_swapped silent =
                 Inr (cat_swapped\<lparr>checkResult := Some Incorrect\<rparr>, p')"
    by simp
  from reachable_cat_hidden reachable_cat_placed reachable_cat_swapped h1 h2 h3 c1 c2 c3
  show ?thesis by blast
qed

subsection \<open>Hiding and unhiding\<close>

text \<open>
  Claim C3. For every state and every index that is not hidden, hiding the tile and then
  unhiding it leaves the index not hidden, leaves no bank entry with that index's bank
  identifier, and leaves no placement at the index; the hidden set is the one before the
  hide. This holds whatever order the shuffle leaves the bank in.
\<close>

theorem hide_then_unhide:
  assumes "i \<notin> hiddenIndices c"
  shows "i \<notin> hiddenIndices (toggleTileHidden shuffle2 i (toggleTileHidden shuffle1 i c)) \<and>
         (\<forall>b \<in> set (bankTiles (toggleTileHidden shuffle2 i (toggleTileHidden shuffle1 i c))).
             bank_id b \<noteq> ''bank-'' @ show_nat i) \<and>
         draggedTiles (toggleTileHidden shuffle2 i (toggleTileHidden shuffle1 i c)) i = None \<and>
         hiddenIndices (toggleTileHidden shuffle2 i (toggleTileHidden shuffle1 i c)) =
           hiddenIndices c"
  using assms by (simp add: toggleTileHidden_def Let_def)

text \<open>On the loaded word cat, hiding and unhiding tile 1 gives back the loaded state.\<close>

theorem hide_then_unhide_witness:
  "1 \<notin> hiddenIndices cat_loaded \<and>
   toggleTileHidden id 1 (toggleTileHidden rev 1 cat_loaded) = cat_loaded"
proof -
  have h: "1 \<notin> hiddenIndices cat_loaded"
    by (simp add: cat_loaded_eq)
  from hide_then_unhide [OF h, of id rev] h show ?thesis
    by (simp add: cat_loaded_eq toggleTileHidden_def at_index_def show_nat_digit
          digit_char_def)
qed

subsection \<open>Hidden tiles and where they are\<close>



lemma ui_reachable_reachable:
  "ui_reachable parseWordToTiles c \<Longrightarrow> reachable parseWordToTiles c"
  by (induction rule: ui_reachable.induct)
     (auto intro: reachable.start reachable.init reachable.bank_click reachable.slot_click
        reachable.check reachable.close)






text \<open>
  Two more ways the handlers, called one after the other, leave a hidden tile in neither
  place, besides the unhiding above: a bank tile placed on a slot that is already filled
  replaces the tile there without returning it, and two placed tiles returned to the bank
  under the same timestamp share a bank identifier, so placing one removes both.
\<close>

lemma hidden_tile_lost:
  "reachable letterTiles cat_lost \<and> hiddenIndices cat_lost = {0} \<and>
   bankTiles cat_lost = [] \<and> draggedTiles cat_lost = Map.empty \<and>
   reachable letterTiles cat_overwritten \<and> hiddenIndices cat_overwritten = {0, 1} \<and>
   bankTiles cat_overwritten = [] \<and>
   draggedTiles cat_overwritten = [1 \<mapsto> Some \<lparr>tile_text = ''a'', tile_kind = ''letter''\<rparr>] \<and>
   reachable letterTiles cat_collided \<and> hiddenIndices cat_collided = {0, 1} \<and>
   bankTiles cat_collided = [] \<and>
   draggedTiles cat_collided = [0 \<mapsto> Some \<lparr>tile_text = ''a'', tile_kind = ''letter''\<rparr>]"
  using reachable_cat_lost reachable_cat_overwritten reachable_cat_collided
  by (simp add: cat_lost_eq cat_overwritten_eq cat_collided_eq)

section \<open>The section list\<close>

lemma shown_texts_append: "shown_texts (xs @ ys) = shown_texts xs @ shown_texts ys"
  by (induction xs) (simp_all split: option.splits)

lemma item_text_item_row: "item_text (item_row g a r pl i t) = Some t"
  by (simp add: item_row_def Let_def)

lemma not_placeholder_item_row: "\<not> is_placeholder (item_row g a r pl i t)"
  by (simp add: item_row_def Let_def)

lemma shown_texts_items_aux:
  "shown_texts (map (\<lambda>(idx, t). item_row g a r pl idx t) (enumerate n xs)) = xs"
  by (induction xs arbitrary: n) (simp_all add: item_text_item_row)

lemma shown_texts_items: "shown_texts (render_items g a r pl sec) = sec_data sec"
  by (simp add: render_items_def shown_texts_items_aux)

lemma shown_texts_map_EmptySlot: "shown_texts (map (\<lambda>idx. EmptySlot (f idx) (h idx)) xs) = []"
  by (induction xs) simp_all

lemma shown_texts_placeholders: "shown_texts (render_placeholders sec) = []"
  by (simp add: render_placeholders_def shown_texts_map_EmptySlot)

lemma placeholders_all:
  "filter is_placeholder (render_placeholders sec) = render_placeholders sec"
  by (simp add: render_placeholders_def)

lemma items_no_placeholder: "filter is_placeholder (render_items g a r pl sec) = []"
  by (auto simp: render_items_def filter_empty_conv not_placeholder_item_row)

lemma length_placeholders:
  "length (render_placeholders sec) = sec_count sec - length (sec_data sec)"
  by (simp add: render_placeholders_def)

lemma placeholders_none:
  "sec_count sec \<le> length (sec_data sec) \<Longrightarrow> render_placeholders sec = []"
  by (simp add: render_placeholders_def)

lemma length_render_items:
  "sec_data sec \<noteq> [] \<Longrightarrow> length (render_items g a r pl sec) = length (sec_data sec)"
  by (simp add: render_items_def)

lemma length_render_items_long:
  "sec_count sec < length (sec_data sec) \<Longrightarrow>
     length (render_items g a r pl sec) = length (sec_data sec)"
  by (auto simp: render_items_def)

lemma short_section_eq:
  "short_section =
     \<lparr>sec_title = ''Nonsense Words'', sec_count = 3, sec_data = [''zib'', ''plonk'']\<rparr>"
  by (simp add: short_section_def sections_def or_empty_def)

lemma long_section_eq:
  "long_section =
     \<lparr>sec_title = ''Phrases'', sec_count = 3,
      sec_data = [''a red hat'', ''on the mat'', ''in the sun'', ''up the hill'']\<rparr>"
  by (simp add: long_section_def sections_def or_empty_def)

lemma empty_section_eq:
  "empty_section = \<lparr>sec_title = ''Sounds'', sec_count = 5, sec_data = []\<rparr>"
  by (simp add: empty_section_def sections_def or_empty_def)

text \<open>
  Claim C7, as the spec states it, at the Sounds section when its list is absent: the list
  is shorter than the count of 5, and six rows are rendered, the notice that no items are
  configured and five placeholders.
\<close>

theorem empty_list_has_extra_row:
  "length (sec_data empty_section) < sec_count empty_section \<and>
   sec_count empty_section = 5 \<and>
   length (render_list False 0 {} None empty_section) = 6 \<and>
   hd (render_list False 0 {} None empty_section) = NoItems ''Sounds''"
  by (simp add: empty_section_eq render_list_def render_items_def render_placeholders_def)

text \<open>
  Claim C7, amended. For every section, in either mode: when the list is longer than the
  configured count, the rows show all the items in order, none is a placeholder, and there
  are as many rows as items; when it is shorter and not empty, the rows are one per item,
  showing all the items in order, followed by exactly count minus length placeholders, so
  the number of rendered rows is the configured count; when it is empty, the rows are the
  notice that no items are configured followed by count placeholders, count plus one rows.
\<close>

theorem section_rows:
  "(sec_count sec < length (sec_data sec) \<longrightarrow>
      shown_texts (render_list g a r pl sec) = sec_data sec \<and>
      filter is_placeholder (render_list g a r pl sec) = [] \<and>
      length (render_list g a r pl sec) = length (sec_data sec)) \<and>
   (length (sec_data sec) < sec_count sec \<and> sec_data sec \<noteq> [] \<longrightarrow>
      render_list g a r pl sec = render_items g a r pl sec @ render_placeholders sec \<and>
      shown_texts (render_items g a r pl sec) = sec_data sec \<and>
      length (render_items g a r pl sec) = length (sec_data sec) \<and>
      filter is_placeholder (render_list g a r pl sec) = render_placeholders sec \<and>
      length (render_placeholders sec) = sec_count sec - length (sec_data sec) \<and>
      length (render_list g a r pl sec) = sec_count sec) \<and>
   (sec_data sec = [] \<longrightarrow>
      render_list g a r pl sec = NoItems (sec_title sec) # render_placeholders sec \<and>
      filter is_placeholder (render_list g a r pl sec) = render_placeholders sec \<and>
      length (render_placeholders sec) = sec_count sec \<and>
      length (render_list g a r pl sec) = sec_count sec + 1)"
proof (intro conjI)
  show "sec_count sec < length (sec_data sec) \<longrightarrow>
      shown_texts (render_list g a r pl sec) = sec_data sec \<and>
      filter is_placeholder (render_list g a r pl sec) = [] \<and>
      length (render_list g a r pl sec) = length (sec_data sec)"
    by (auto simp: render_list_def shown_texts_items items_no_placeholder shown_texts_append
          shown_texts_placeholders placeholders_none length_render_items_long)
next
  show "length (sec_data sec) < sec_count sec \<and> sec_data sec \<noteq> [] \<longrightarrow>
      render_list g a r pl sec = render_items g a r pl sec @ render_placeholders sec \<and>
      shown_texts (render_items g a r pl sec) = sec_data sec \<and>
      length (render_items g a r pl sec) = length (sec_data sec) \<and>
      filter is_placeholder (render_list g a r pl sec) = render_placeholders sec \<and>
      length (render_placeholders sec) = sec_count sec - length (sec_data sec) \<and>
      length (render_list g a r pl sec) = sec_count sec"
    by (simp add: render_list_def shown_texts_items placeholders_all items_no_placeholder
          length_placeholders length_render_items)
next
  show "sec_data sec = [] \<longrightarrow>
      render_list g a r pl sec = NoItems (sec_title sec) # render_placeholders sec \<and>
      filter is_placeholder (render_list g a r pl sec) = render_placeholders sec \<and>
      length (render_placeholders sec) = sec_count sec \<and>
      length (render_list g a r pl sec) = sec_count sec + 1"
    by (simp add: render_list_def render_items_def placeholders_all length_placeholders)
qed

text \<open>
  Four phrases against a count of 3: all four shown, four rows, no placeholder. Two nonsense
  words against a count of 3: both shown, then one placeholder numbered 3, three rows in
  all. No sounds against a count of 5: the notice and five placeholders, six rows.
\<close>

theorem section_rows_witness:
  "sec_count long_section < length (sec_data long_section) \<and>
   shown_texts (render_list False 4 {} None long_section) =
     [''a red hat'', ''on the mat'', ''in the sun'', ''up the hill''] \<and>
   filter is_placeholder (render_list False 4 {} None long_section) = [] \<and>
   length (render_list False 4 {} None long_section) = 4 \<and>
   length (sec_data short_section) < sec_count short_section \<and>
   sec_data short_section \<noteq> [] \<and>
   shown_texts (render_items False 3 {} None short_section) = [''zib'', ''plonk''] \<and>
   filter is_placeholder (render_list False 3 {} None short_section) =
     [EmptySlot ''empty-0'' 3] \<and>
   length (render_list False 3 {} None short_section) = 3 \<and>
   sec_data empty_section = [] \<and>
   length (render_list False 0 {} None empty_section) = 6"
proof -
  have l: "sec_count long_section < length (sec_data long_section)"
    by (simp add: long_section_eq)
  have s: "length (sec_data short_section) < sec_count short_section \<and>
           sec_data short_section \<noteq> []"
    by (simp add: short_section_eq)
  have e: "sec_data empty_section = []"
    by (simp add: empty_section_eq)
  have ph: "render_placeholders short_section = [EmptySlot ''empty-0'' 3]"
    by (simp add: render_placeholders_def short_section_eq show_nat_digit digit_char_def)
  from section_rows [of long_section False 4 "{}" None] l
  have a: "shown_texts (render_list False 4 {} None long_section) = sec_data long_section"
          "filter is_placeholder (render_list False 4 {} None long_section) = []"
          "length (render_list False 4 {} None long_section) = length (sec_data long_section)"
    by blast+
  from section_rows [of short_section False 3 "{}" None] s
  have b: "shown_texts (render_items False 3 {} None short_section) = sec_data short_section"
          "filter is_placeholder (render_list False 3 {} None short_section) =
             render_placeholders short_section"
          "length (render_list False 3 {} None short_section) = sec_count short_section"
    by blast+
  from section_rows [of empty_section False 0 "{}" None] e
  have c: "length (render_list False 0 {} None empty_section) = sec_count empty_section + 1"
    by blast
  from a b c l s e ph show ?thesis
    by (simp add: long_section_eq short_section_eq empty_section_eq)
qed

end
